theory Spec2Isabelle
  imports Main
begin

section \<open>JavaScript values read by the dispatch core\<close>

text \<open>
  The values that \<^verbatim>\<open>lib/application.js\<close> inspects with \<^verbatim>\<open>===\<close>, \<^verbatim>\<open>||\<close> and
  \<^verbatim>\<open>if\<close>. Numbers are the integers (status codes, lengths); strings are byte strings in UTF-8,
  so that \<^verbatim>\<open>Buffer.byteLength\<close> is the length of the list; an object is a reference, the
  address of the object in the store.
\<close>

datatype jsval = JUndefined | JNull | JBool bool | JNum int | JStr string | JRef nat

text \<open>ToBoolean: what \<^verbatim>\<open>if (v)\<close>, \<^verbatim>\<open>!v\<close> and \<^verbatim>\<open>v || w\<close> test.\<close>

fun truthy :: "jsval \<Rightarrow> bool" where
  "truthy JUndefined = False"
| "truthy JNull = False"
| "truthy (JBool b) = b"
| "truthy (JNum n) = (n \<noteq> 0)"
| "truthy (JStr s) = (s \<noteq> [])"
| "truthy (JRef a) = True"

definition Buffer_byteLength :: "string \<Rightarrow> int" where
  "Buffer_byteLength s = int (length s)"

text \<open>\<^verbatim>\<open>String(code)\<close> for an integer: its decimal digits, with a sign when negative.\<close>

fun digits :: "nat \<Rightarrow> string" where
  "digits n = (if n < 10 then [''0123456789'' ! n]
               else digits (n div 10) @ [''0123456789'' ! (n mod 10)])"

declare digits.simps [simp del]

definition String_num :: "int \<Rightarrow> string" where
  "String_num i = (if i < 0 then CHR ''-'' # digits (nat (- i)) else digits (nat i))"

datatype exn = TypeError string

section \<open>The context as the finalizer sees it\<close>

text \<open>
  The body value of a context: absent (\<^verbatim>\<open>undefined\<close> or \<^verbatim>\<open>null\<close>), a \<^verbatim>\<open>Buffer\<close>, a string,
  a \<^verbatim>\<open>Stream\<close> (of type \<open>'s\<close>), or any other value (of type \<open>'v\<close>), which is the one
  \<^verbatim>\<open>JSON.stringify\<close> receives.
\<close>

datatype ('s, 'v) body =
    BUndefined
  | BNull
  | BBuffer string
  | BString string
  | BStream 's
  | BOther 'v

text \<open>
  The transport handles \<^verbatim>\<open>req\<close> and \<^verbatim>\<open>res\<close>, with the properties that the dispatcher and
  the finalizer read and write: \<^verbatim>\<open>req.httpVersionMajor\<close>, \<^verbatim>\<open>res.statusCode\<close> and
  \<^verbatim>\<open>res.headersSent\<close>.
\<close>

record req =
  req_httpVersionMajor :: nat

record res =
  res_statusCode :: int
  res_headersSent :: bool

text \<open>
  The response facade, as far as \<^verbatim>\<open>respond\<close> reads it: \<^verbatim>\<open>ctx.response.has(name)\<close>,
  \<^verbatim>\<open>ctx.response.length\<close> and \<^verbatim>\<open>ctx.response._explicitNullBody\<close>. The accessors themselves
  live in \<^verbatim>\<open>lib/response.js\<close>; each field holds what the accessor returns when the
  finalizer runs. Every read of \<^verbatim>\<open>respond\<close> comes before its first write on every path, so
  one snapshot is enough. The length is a getter that computes: read where no
  \<^verbatim>\<open>Content-Length\<close> header exists it depends on the body, and it throws on a body that
  cannot be serialized; it is kept as a function of the body, with the exception as a result.
\<close>

record ('s, 'v) response =
  response_has :: "string \<Rightarrow> bool"
  response_length :: "('s, 'v) body \<Rightarrow> exn + jsval"
  response_explicitNullBody :: jsval

text \<open>
  The context, by its accessors: \<^verbatim>\<open>ctx.respond\<close>, \<^verbatim>\<open>ctx.writable\<close>, \<^verbatim>\<open>ctx.body\<close>,
  \<^verbatim>\<open>ctx.method\<close>, \<^verbatim>\<open>ctx.message\<close>, and the objects \<^verbatim>\<open>ctx.req\<close>, \<^verbatim>\<open>ctx.res\<close> and
  \<^verbatim>\<open>ctx.response\<close>. The message accessor answers with the message of the status the
  response has (or with nothing, when there is none), and the dispatcher changes that status;
  it is kept as a function of the status code.
\<close>

record ('s, 'v) ctx =
  ctx_respond :: jsval
  ctx_writable :: bool
  ctx_body :: "('s, 'v) body"
  ctx_method :: string
  ctx_message :: "int \<Rightarrow> string option"
  ctx_req :: req
  ctx_res :: res
  ctx_response :: "('s, 'v) response"

text \<open>
  Modelled from the spec: the status accessor of the context, defined in
  \<^verbatim>\<open>lib/context.js\<close> and \<^verbatim>\<open>lib/response.js\<close> and missing beside \<^verbatim>\<open>lib/application.js\<close>.
  The terminal status is the status code of the transport response, which is why the
  dispatcher's default of 404 is what a pipeline that sets no status ends with.
\<close>

definition ctx_status :: "('s, 'v) ctx \<Rightarrow> int" where
  "ctx_status c = res_statusCode (ctx_res c)"

text \<open>
  Modelled from the spec: the table \<^verbatim>\<open>statuses.empty\<close> of the \<^verbatim>\<open>statuses\<close> package, the
  defined "no body" statuses 204, 205 and 304.
\<close>

definition statuses_empty :: "int \<Rightarrow> bool" where
  "statuses_empty code = (code = 204 \<or> code = 205 \<or> code = 304)"

section \<open>Response helper\<close>

text \<open>
  What \<^verbatim>\<open>respond\<close> does to the context and to the transport response, one constructor for
  each statement of the source that writes:
  \<^verbatim>\<open>ctx.body = null\<close>, \<^verbatim>\<open>ctx.length = n\<close>, \<^verbatim>\<open>ctx.type = t\<close>, \<^verbatim>\<open>ctx.response.remove(name)\<close>,
  \<^verbatim>\<open>res.end()\<close> or \<^verbatim>\<open>res.end(payload)\<close>, and \<^verbatim>\<open>body.pipe(res)\<close>.
\<close>

datatype payload = Buf string | Str string

datatype 's effect =
    Set_body_null
  | Set_length int
  | Set_type string
  | Remove string
  | End "payload option"
  | Pipe 's

text \<open>
  The status body of lines 290 to 294: \<^verbatim>\<open>String(code)\<close> from HTTP/2 on, and
  \<^verbatim>\<open>ctx.message || String(code)\<close> before.
\<close>

definition status_body :: "('s, 'v) ctx \<Rightarrow> string" where
  "status_body c =
     (if req_httpVersionMajor (ctx_req c) \<ge> 2 then String_num (ctx_status c)
      else (case ctx_message c (ctx_status c) of
              None \<Rightarrow> String_num (ctx_status c)
            | Some m \<Rightarrow> if m = [] then String_num (ctx_status c) else m))"

text \<open>
  Lines 284 to 300, the branch of \<^verbatim>\<open>null == body\<close>: with the explicit null body flag the two
  headers are removed and the response ends empty; otherwise the status body is sent, after
  type and length when the headers are unsent.
\<close>

definition respond_status_body :: "('s, 'v) ctx \<Rightarrow> exn + 's effect list" where
  "respond_status_body c =
     (if truthy (response_explicitNullBody (ctx_response c))
      then Inr [Remove ''Content-Type'', Remove ''Transfer-Encoding'', End None]
      else Inr ((if \<not> res_headersSent (ctx_res c)
                 then [Set_type ''text'', Set_length (Buffer_byteLength (status_body c))]
                 else [])
                @ [End (Some (Str (status_body c)))]))"

text \<open>
  \<^verbatim>\<open>respond(ctx)\<close>. The result is the exception thrown, or the writes in the order in which
  they are made. \<open>stringify\<close> is \<^verbatim>\<open>JSON.stringify\<close>, which throws (a circular structure, a
  BigInt), returns \<^verbatim>\<open>undefined\<close> (a function, a symbol), or returns the encoding.
  \<^verbatim>\<open>Buffer.byteLength(undefined)\<close> throws a TypeError, written here by its code
  \<^verbatim>\<open>ERR_INVALID_ARG_TYPE\<close>. Reading \<^verbatim>\<open>ctx.response.length\<close> for a HEAD request may throw as
  well, before the response is ended. \<^verbatim>\<open>Number.isInteger(length)\<close> holds exactly of the
  numbers, which are the integers here.
\<close>

definition respond :: "('v \<Rightarrow> exn + string option) \<Rightarrow> ('s, 'v) ctx \<Rightarrow> exn + 's effect list" where
  "respond stringify c =
     (if ctx_respond c = JBool False then Inr []
      else if \<not> ctx_writable c then Inr []
      else if statuses_empty (ctx_status c) then Inr [Set_body_null, End None]
      else if ctx_method c = ''HEAD'' then
        (if \<not> res_headersSent (ctx_res c) \<and> \<not> response_has (ctx_response c) ''Content-Length''
         then (case response_length (ctx_response c) (ctx_body c) of
                 Inl e \<Rightarrow> Inl e
               | Inr (JNum n) \<Rightarrow> Inr [Set_length n, End None]
               | Inr _ \<Rightarrow> Inr [End None])
         else Inr [End None])
      else
        (case ctx_body c of
           BUndefined \<Rightarrow> respond_status_body c
         | BNull \<Rightarrow> respond_status_body c
         | BBuffer b \<Rightarrow> Inr [End (Some (Buf b))]
         | BString s \<Rightarrow> Inr [End (Some (Str s))]
         | BStream s \<Rightarrow> Inr [Pipe s]
         | BOther v \<Rightarrow>
             (case stringify v of
                Inl e \<Rightarrow> Inl e
              | Inr None \<Rightarrow>
                  if \<not> res_headersSent (ctx_res c)
                  then Inl (TypeError ''ERR_INVALID_ARG_TYPE'')
                  else Inr [End None]
              | Inr (Some s) \<Rightarrow>
                  Inr ((if \<not> res_headersSent (ctx_res c) then [Set_length (Buffer_byteLength s)] else [])
                       @ [End (Some (Str s))]))))"

section \<open>Request dispatcher\<close>

text \<open>
  The composed middleware \<^verbatim>\<open>fnMiddleware\<close> comes from \<^verbatim>\<open>koa-compose\<close>: called with the
  context it runs the handlers, which change the context, and returns a promise. The model
  of a pipeline gives how that promise settles and the context the handlers leave behind.
\<close>

datatype 'e outcome = Fulfilled | Rejected "'e option"

type_synonym ('s, 'v, 'e) pipeline = "('s, 'v) ctx \<Rightarrow> 'e outcome \<times> ('s, 'v) ctx"

text \<open>
  The argument of \<^verbatim>\<open>const onerror = err => ctx.onerror(err)\<close>: the reason of a rejected
  pipeline, the exception \<^verbatim>\<open>respond\<close> raised inside \<^verbatim>\<open>.then(handleResponse)\<close>, or what the
  listener of \<^verbatim>\<open>onFinished\<close> is called with (an error, or nothing when the response finished
  or closed without one). A reason or an error that is \<^verbatim>\<open>null\<close> or \<^verbatim>\<open>undefined\<close> is
  \<open>None\<close>.
\<close>

datatype 'e thrown = Reason "'e option" | Raised exn | Signal "'e option"

fun nullish :: "'e thrown \<Rightarrow> bool" where
  "nullish (Reason None) = True"
| "nullish (Signal None) = True"
| "nullish err = False"

text \<open>
  Modelled from the spec: the error handler of the context, \<^verbatim>\<open>ctx.onerror\<close> of
  \<^verbatim>\<open>lib/context.js\<close>, which is missing beside \<^verbatim>\<open>lib/application.js\<close>. Called with nothing it
  does nothing. Called with an error it hands the error to the error handler of the
  application, and then, as every write path does, checks headers-sent and writability
  before it writes: only on a writable response with unsent headers does it send the error
  response and end the transport response.
\<close>

datatype reaction = Ignored | Emitted | Emitted_and_ended

definition ctx_onerror :: "'e thrown \<Rightarrow> ('s, 'v) ctx \<Rightarrow> reaction" where
  "ctx_onerror err c =
     (if nullish err then Ignored
      else if res_headersSent (ctx_res c) \<or> \<not> ctx_writable c then Emitted
      else Emitted_and_ended)"

text \<open>
  The two callbacks of the dispatcher, as entries of a call log: \<^verbatim>\<open>handleResponse\<close> with
  what \<^verbatim>\<open>respond\<close> did, and \<^verbatim>\<open>onerror\<close> with its argument and what \<^verbatim>\<open>ctx.onerror\<close> did.
\<close>

datatype ('s, 'e) call =
    Call_respond "exn + 's effect list"
  | Call_onerror "'e thrown" reaction

text \<open>\<^verbatim>\<open>const onerror = err => ctx.onerror(err)\<close>, as the entry it leaves in the log.\<close>

definition onerror_call :: "'e thrown \<Rightarrow> ('s, 'v) ctx \<Rightarrow> ('s, 'e) call" where
  "onerror_call err c = Call_onerror err (ctx_onerror err c)"

text \<open>
  A request in flight: the context, the running pipeline, whether its promise has settled,
  whether the listener registered by \<^verbatim>\<open>onFinished(res, onerror)\<close> is still waiting, and the
  calls of \<^verbatim>\<open>handleResponse\<close> and \<^verbatim>\<open>onerror\<close> made so far.
\<close>

record ('s, 'v, 'e) request =
  rq_ctx :: "('s, 'v) ctx"
  rq_pipeline :: "('s, 'v, 'e) pipeline"
  rq_settled :: bool
  rq_listening :: bool
  rq_calls :: "('s, 'e) call list"

text \<open>
  \<^verbatim>\<open>handleRequest(ctx, fnMiddleware)\<close>, up to its \<^verbatim>\<open>return\<close>: the status code of the
  transport response becomes 404, the listener is registered, the pipeline is started on
  the context and the two reactions are attached to its promise. Nothing has been called
  yet.
\<close>

definition handleRequest :: "('s, 'v) ctx \<Rightarrow> ('s, 'v, 'e) pipeline \<Rightarrow> ('s, 'v, 'e) request" where
  "handleRequest c fnMiddleware =
     \<lparr>rq_ctx = c\<lparr>ctx_res := (ctx_res c)\<lparr>res_statusCode := 404\<rparr>\<rparr>,
      rq_pipeline = fnMiddleware,
      rq_settled = False,
      rq_listening = True,
      rq_calls = []\<rparr>"

text \<open>
  What happens to the request afterwards: the promise of the pipeline settles, or the
  transport tells the listener that the response finished, closed or failed.
\<close>

datatype 'e event = Settle | Finished "'e option"

text \<open>
  The context as a callback finds it. The listener is told once that the response has
  finished, that the connection has closed or that it has failed; from then on the
  response is not writable, whatever the handlers have left in the context.
\<close>

definition seen :: "('s, 'v, 'e) request \<Rightarrow> ('s, 'v) ctx \<Rightarrow> ('s, 'v) ctx" where
  "seen r c = c\<lparr>ctx_writable := ctx_writable c \<and> rq_listening r\<rparr>"

text \<open>
  \<^verbatim>\<open>fnMiddleware(ctx).then(handleResponse).catch(onerror)\<close>: a fulfilled pipeline calls
  \<^verbatim>\<open>respond(ctx)\<close>, and an exception of that call rejects the promise of \<^verbatim>\<open>then\<close>, which
  \<^verbatim>\<open>catch\<close> hands to \<^verbatim>\<open>onerror\<close>; a rejected pipeline skips \<^verbatim>\<open>handleResponse\<close> and reaches
  \<^verbatim>\<open>onerror\<close> with its reason. A promise settles once. The listener of \<^verbatim>\<open>onFinished\<close> is
  invoked once, the first time the response is reported finished.
\<close>

fun step :: "('v \<Rightarrow> exn + string option) \<Rightarrow> ('s, 'v, 'e) request \<Rightarrow> 'e event
    \<Rightarrow> ('s, 'v, 'e) request" where
  "step stringify r Settle =
     (if rq_settled r then r
      else (case rq_pipeline r (rq_ctx r) of
              (Fulfilled, c) \<Rightarrow>
                (case respond stringify (seen r c) of
                   Inr effs \<Rightarrow>
                     r\<lparr>rq_ctx := c, rq_settled := True,
                       rq_calls := rq_calls r @ [Call_respond (Inr effs)]\<rparr>
                 | Inl x \<Rightarrow>
                     r\<lparr>rq_ctx := c, rq_settled := True,
                       rq_calls := rq_calls r @
                         [Call_respond (Inl x), onerror_call (Raised x) (seen r c)]\<rparr>)
            | (Rejected e, c) \<Rightarrow>
                r\<lparr>rq_ctx := c, rq_settled := True,
                  rq_calls := rq_calls r @ [onerror_call (Reason e) (seen r c)]\<rparr>))"
| "step stringify r (Finished err) =
     (if rq_listening r
      then r\<lparr>rq_listening := False,
             rq_calls := rq_calls r @
               [onerror_call (Signal err) (seen (r\<lparr>rq_listening := False\<rparr>) (rq_ctx r))]\<rparr>
      else r)"

fun run :: "('v \<Rightarrow> exn + string option) \<Rightarrow> ('s, 'v, 'e) request \<Rightarrow> 'e event list
    \<Rightarrow> ('s, 'v, 'e) request" where
  "run stringify r [] = r"
| "run stringify r (ev # evs) = run stringify (step stringify r ev) evs"

text \<open>Whether the transport reports the response finished before the pipeline settles.\<close>

fun finished_first :: "'e event list \<Rightarrow> bool" where
  "finished_first (Finished err # evs) = True"
| "finished_first evs = False"

text \<open>
  Counting the calls of a log, and the terminal writes in it: those of the finalizer,
  which ends or pipes the response, and those of the error handler of the context.
\<close>

fun is_write :: "'s effect \<Rightarrow> bool" where
  "is_write (End p) = True"
| "is_write (Pipe s) = True"
| "is_write e = False"

fun finalizer_calls :: "('s, 'e) call list \<Rightarrow> nat" where
  "finalizer_calls [] = 0"
| "finalizer_calls (Call_respond x # cs) = Suc (finalizer_calls cs)"
| "finalizer_calls (Call_onerror x w # cs) = finalizer_calls cs"

fun chain_onerror_calls :: "('s, 'e) call list \<Rightarrow> nat" where
  "chain_onerror_calls [] = 0"
| "chain_onerror_calls (Call_onerror (Reason e) w # cs) = Suc (chain_onerror_calls cs)"
| "chain_onerror_calls (Call_onerror (Raised x) w # cs) = Suc (chain_onerror_calls cs)"
| "chain_onerror_calls (c # cs) = chain_onerror_calls cs"

fun listener_onerror_calls :: "('s, 'e) call list \<Rightarrow> nat" where
  "listener_onerror_calls [] = 0"
| "listener_onerror_calls (Call_onerror (Signal e) w # cs) = Suc (listener_onerror_calls cs)"
| "listener_onerror_calls (c # cs) = listener_onerror_calls cs"

fun terminal_writes :: "('s, 'e) call list \<Rightarrow> nat" where
  "terminal_writes [] = 0"
| "terminal_writes (Call_respond (Inr effs) # cs) = length (filter is_write effs) + terminal_writes cs"
| "terminal_writes (Call_onerror err Emitted_and_ended # cs) = Suc (terminal_writes cs)"
| "terminal_writes (c # cs) = terminal_writes cs"

text \<open>
  Three kinds of body for the examples: a BigInt, on which \<^verbatim>\<open>JSON.stringify\<close> throws, a
  small integer, which it writes in digits, and a function, for which it returns
  \<^verbatim>\<open>undefined\<close>.
\<close>

datatype sample_value = BigInt int | Number int | Func

fun sample_stringify :: "sample_value \<Rightarrow> exn + string option" where
  "sample_stringify (BigInt n) = Inl (TypeError ''Do not know how to serialize a BigInt'')"
| "sample_stringify (Number n) = Inr (Some (String_num n))"
| "sample_stringify Func = Inr None"

fun sample_falsy :: "sample_value \<Rightarrow> bool" where
  "sample_falsy (BigInt n) = (n = 0)"
| "sample_falsy (Number n) = (n = 0)"
| "sample_falsy Func = False"

text \<open>
  Modelled from the spec: the length accessor of the response facade, defined in
  \<^verbatim>\<open>lib/response.js\<close> and missing beside \<^verbatim>\<open>lib/application.js\<close>, on these bodies and with no
  \<^verbatim>\<open>Content-Length\<close> header: the byte length of the would-be body, which for a value that
  is neither string nor \<^verbatim>\<open>Buffer\<close> is the length of its serialization, and \<^verbatim>\<open>undefined\<close> when
  there is no body (none, an empty string, a falsy value) or the body is a stream.
\<close>

fun sample_length :: "(unit, sample_value) body \<Rightarrow> exn + jsval" where
  "sample_length BUndefined = Inr JUndefined"
| "sample_length BNull = Inr JUndefined"
| "sample_length (BBuffer b) = Inr (JNum (int (length b)))"
| "sample_length (BString s) = (if s = [] then Inr JUndefined else Inr (JNum (Buffer_byteLength s)))"
| "sample_length (BStream st) = Inr JUndefined"
| "sample_length (BOther v) =
     (if sample_falsy v then Inr JUndefined
      else (case sample_stringify v of
              Inl e \<Rightarrow> Inl e
            | Inr None \<Rightarrow> Inl (TypeError ''ERR_INVALID_ARG_TYPE'')
            | Inr (Some s) \<Rightarrow> Inr (JNum (Buffer_byteLength s))))"

section \<open>Default error handler\<close>

text \<open>
  The value \<^verbatim>\<open>onerror\<close> is called with, by what the handler reads of it: the tag
  \<^verbatim>\<open>Object.prototype.toString.call(err)\<close>, whether \<^verbatim>\<open>err instanceof Error\<close>, the properties
  \<^verbatim>\<open>status\<close>, \<^verbatim>\<open>expose\<close> and \<^verbatim>\<open>stack\<close> (a string when present), the result of
  \<^verbatim>\<open>err.toString()\<close>, and its rendering by the \<^verbatim>\<open>%j\<close> of \<^verbatim>\<open>util.format\<close>.
\<close>

record thrown_value =
  err_tag :: string
  err_instanceof_Error :: bool
  err_status :: jsval
  err_expose :: jsval
  err_stack :: "string option"
  err_toString :: string
  err_json :: string

record application =
  app_silent :: jsval

definition isNativeError :: "thrown_value \<Rightarrow> bool" where
  "isNativeError err = (err_tag err = ''[object Error]'' \<or> err_instanceof_Error err)"

text \<open>
  \<^verbatim>\<open>msg.replace(/^/gm, ind)\<close>: with the flag \<^verbatim>\<open>m\<close> the anchor matches at the start of the text
  and after every line terminator, which are LF, CR, U+2028 and U+2029 (the last two are
  the bytes E2 80 A8 and E2 80 A9).
\<close>

fun after_terminators :: "string \<Rightarrow> string \<Rightarrow> string" where
  "after_terminators ind [] = []"
| "after_terminators ind (c # cs) =
     (if c = CHR 0x0A \<or> c = CHR 0x0D then c # ind @ after_terminators ind cs
      else if c = CHR 0xE2 \<and> (take 2 cs = [CHR 0x80, CHR 0xA8] \<or> take 2 cs = [CHR 0x80, CHR 0xA9])
      then c # take 2 cs @ ind @ after_terminators ind (drop 2 cs)
      else c # after_terminators ind cs)"

definition replace_line_starts :: "string \<Rightarrow> string \<Rightarrow> string" where
  "replace_line_starts msg ind = ind @ after_terminators ind msg"

text \<open>The lines of a text, each with the terminator that ends it; the last one has none.\<close>

fun lines_of :: "string \<Rightarrow> string list" where
  "lines_of [] = [[]]"
| "lines_of (c # cs) =
     (if c = CHR 0x0A \<or> c = CHR 0x0D then [c] # lines_of cs
      else if c = CHR 0xE2 \<and> (take 2 cs = [CHR 0x80, CHR 0xA8] \<or> take 2 cs = [CHR 0x80, CHR 0xA9])
      then (c # take 2 cs) # lines_of (drop 2 cs)
      else (case lines_of cs of [] \<Rightarrow> [[c]] | l # ls \<Rightarrow> (c # l) # ls))"

text \<open>\<^verbatim>\<open>err.stack || err.toString()\<close>.\<close>

definition diagnostic :: "thrown_value \<Rightarrow> string" where
  "diagnostic err =
     (case err_stack err of
        None \<Rightarrow> err_toString err
      | Some s \<Rightarrow> if s = [] then err_toString err else s)"

text \<open>
  \<^verbatim>\<open>onerror(err)\<close> of the application. The result is the TypeError thrown, or the texts
  handed to \<^verbatim>\<open>console.error\<close>.
\<close>

definition onerror :: "application \<Rightarrow> thrown_value \<Rightarrow> exn + string list" where
  "onerror this err =
     (if \<not> isNativeError err then Inl (TypeError (''non-error thrown: '' @ err_json err))
      else if err_status err = JNum 404 \<or> truthy (err_expose err) then Inr []
      else if truthy (app_silent this) then Inr []
      else Inr [[CHR 0x0A] @ replace_line_starts (diagnostic err) ''  '' @ [CHR 0x0A]])"

section \<open>Context factory\<close>

text \<open>
  \<^verbatim>\<open>createContext\<close> builds objects that refer to each other, so it is modelled on a store:
  a list of objects, an address being a position in it. An object has a prototype and
  its own properties. \<^verbatim>\<open>Object.prototype\<close> itself is not kept in the store; it has none of
  the properties read here.
\<close>

type_synonym addr = nat

datatype proto = Proto_null | Proto_Object | Proto addr

record obj =
  obj_proto :: proto
  obj_props :: "string \<rightharpoonup> jsval"

type_synonym heap = "obj list"

text \<open>
  Reading \<^verbatim>\<open>o.k\<close> for an object \<^verbatim>\<open>o\<close>: the own property, else the one found along the
  prototype chain, else \<^verbatim>\<open>undefined\<close>. A prototype exists before the objects created from
  it, so the chain runs through ever smaller addresses; a link that does not is not
  followed.
\<close>

function lookup :: "heap \<Rightarrow> addr \<Rightarrow> string \<Rightarrow> jsval" where
  "lookup h a k =
     (if a < length h then
        (case obj_props (h ! a) k of
           Some v \<Rightarrow> v
         | None \<Rightarrow>
             (case obj_proto (h ! a) of
                Proto p \<Rightarrow> if p < a then lookup h p k else JUndefined
              | _ \<Rightarrow> JUndefined))
      else JUndefined)"
  by pat_completeness auto
termination
  by (relation "measure (\<lambda>(h, a, k). a)") auto

declare lookup.simps [simp del]

text \<open>
  Reading \<^verbatim>\<open>v.k\<close> for any value: a TypeError on \<^verbatim>\<open>undefined\<close> and \<^verbatim>\<open>null\<close>, and
  \<^verbatim>\<open>undefined\<close> on the other primitives, which have no such property.
\<close>

definition get :: "heap \<Rightarrow> jsval \<Rightarrow> string \<Rightarrow> exn + jsval" where
  "get h v k =
     (case v of
        JRef a \<Rightarrow> Inr (lookup h a k)
      | JUndefined \<Rightarrow> Inl (TypeError ''Cannot read properties of undefined'')
      | JNull \<Rightarrow> Inl (TypeError ''Cannot read properties of null'')
      | _ \<Rightarrow> Inr JUndefined)"

text \<open>\<^verbatim>\<open>Object.create(p)\<close>: a new object at the next address, or a TypeError.\<close>

definition Object_create :: "jsval \<Rightarrow> heap \<Rightarrow> exn + (addr \<times> heap)" where
  "Object_create p h =
     (case p of
        JRef a \<Rightarrow> Inr (length h, h @ [\<lparr>obj_proto = Proto a, obj_props = Map.empty\<rparr>])
      | JNull \<Rightarrow> Inr (length h, h @ [\<lparr>obj_proto = Proto_null, obj_props = Map.empty\<rparr>])
      | _ \<Rightarrow> Inl (TypeError ''Object prototype may only be an Object or null''))"

text \<open>The object literal \<^verbatim>\<open>{}\<close>.\<close>

definition empty_object :: "heap \<Rightarrow> addr \<times> heap" where
  "empty_object h = (length h, h @ [\<lparr>obj_proto = Proto_Object, obj_props = Map.empty\<rparr>])"

text \<open>
  The assignment \<^verbatim>\<open>o.k = v\<close> to an object of the store. \<^verbatim>\<open>createContext\<close> assigns to the
  objects it has just created, and to names for which the templates define no setter, so
  the assignment writes an own property.
\<close>

definition put :: "heap \<Rightarrow> addr \<Rightarrow> string \<Rightarrow> jsval \<Rightarrow> heap" where
  "put h a k v =
     (if a < length h then h[a := (h ! a)\<lparr>obj_props := (obj_props (h ! a))(k \<mapsto> v)\<rparr>] else h)"

text \<open>
  \<^verbatim>\<open>createContext(req, res)\<close> of the application at address \<open>this\<close>, statement by
  statement. The result is the address of the new context and the store after the call.
\<close>

definition createContext :: "addr \<Rightarrow> jsval \<Rightarrow> jsval \<Rightarrow> heap \<Rightarrow> exn + (addr \<times> heap)" where
  "createContext this req res h =
     (case Object_create (lookup h this ''context'') h of
        Inl e \<Rightarrow> Inl e
      | Inr (context, h1) \<Rightarrow>
     (case Object_create (lookup h1 this ''request'') h1 of
        Inl e \<Rightarrow> Inl e
      | Inr (request, h2) \<Rightarrow>
     (let h3 = put h2 context ''request'' (JRef request) in
      case Object_create (lookup h3 this ''response'') h3 of
        Inl e \<Rightarrow> Inl e
      | Inr (response, h4) \<Rightarrow>
     (let h5 = put h4 context ''response'' (JRef response);
          h6 = put (put (put h5 response ''app'' (JRef this)) request ''app'' (JRef this))
                 context ''app'' (JRef this);
          h7 = put (put (put h6 response ''req'' req) request ''req'' req) context ''req'' req;
          h8 = put (put (put h7 response ''res'' res) request ''res'' res) context ''res'' res;
          h9 = put (put h8 response ''ctx'' (JRef context)) request ''ctx'' (JRef context);
          h10 = put h9 request ''response'' (JRef response);
          h11 = put h10 response ''request'' (JRef request)
      in case get h11 req ''url'' of
           Inl e \<Rightarrow> Inl e
         | Inr url \<Rightarrow>
             (let h12 = put (put h11 request ''originalUrl'' url) context ''originalUrl'' url;
                  (state, h13) = empty_object h12
              in Inr (context, put h13 context ''state'' (JRef state)))))))"

section \<open>Sample inputs\<close>

text \<open>The messages of two status codes, as the message accessor gives them.\<close>

definition sample_message :: "int \<Rightarrow> string option" where
  "sample_message code =
     (if code = 200 then Some ''OK'' else if code = 404 then Some ''Not Found'' else None)"

text \<open>
  A GET request on a writable connection, as the transport delivers it: status 200, no
  body, no headers, no bypass.
\<close>

definition sample_ctx :: "(unit, sample_value) ctx" where
  "sample_ctx =
     \<lparr>ctx_respond = JUndefined,
      ctx_writable = True,
      ctx_body = BUndefined,
      ctx_method = ''GET'',
      ctx_message = sample_message,
      ctx_req = \<lparr>req_httpVersionMajor = 1\<rparr>,
      ctx_res = \<lparr>res_statusCode = 200, res_headersSent = False\<rparr>,
      ctx_response = \<lparr>response_has = (\<lambda>name. False), response_length = sample_length,
                       response_explicitNullBody = JUndefined\<rparr>\<rparr>"

text \<open>The same for a HEAD request.\<close>

definition head_ctx :: "(unit, sample_value) ctx" where
  "head_ctx = sample_ctx\<lparr>ctx_method := ''HEAD''\<rparr>"

text \<open>
  Three pipelines: no handler at all, a handler that sets the body to a BigInt (and with it
  the status to 200), and a handler that throws.
\<close>

definition empty_pipeline :: "(unit, sample_value, string) pipeline" where
  "empty_pipeline c = (Fulfilled, c)"

definition bigint_pipeline :: "(unit, sample_value, string) pipeline" where
  "bigint_pipeline c =
     (Fulfilled, c\<lparr>ctx_body := BOther (BigInt 1),
                   ctx_res := (ctx_res c)\<lparr>res_statusCode := 200\<rparr>\<rparr>)"

definition throwing_pipeline :: "(unit, sample_value, string) pipeline" where
  "throwing_pipeline c = (Rejected (Some ''boom''), c)"

text \<open>An \<^verbatim>\<open>Error\<close> with a stack of two lines, and the number 42 thrown as it is.\<close>

definition sample_error :: thrown_value where
  "sample_error =
     \<lparr>err_tag = ''[object Error]'', err_instanceof_Error = True,
      err_status = JNum 500, err_expose = JBool False,
      err_stack = Some (''Error: boom'' @ [CHR 0x0A] @ ''    at handler''),
      err_toString = ''Error: boom'', err_json = ''{}''\<rparr>"


definition loud_app :: application where
  "loud_app = \<lparr>app_silent = JUndefined\<rparr>"

text \<open>
  A store with an application (address 0), its three templates (1, 2 and 3), a transport
  request (4) and a transport response (5).
\<close>

definition sample_heap :: heap where
  "sample_heap =
     [\<lparr>obj_proto = Proto_Object,
       obj_props = [''context'' \<mapsto> JRef 1, ''request'' \<mapsto> JRef 2, ''response'' \<mapsto> JRef 3]\<rparr>,
      \<lparr>obj_proto = Proto_Object, obj_props = Map.empty\<rparr>,
      \<lparr>obj_proto = Proto_Object, obj_props = Map.empty\<rparr>,
      \<lparr>obj_proto = Proto_Object, obj_props = Map.empty\<rparr>,
      \<lparr>obj_proto = Proto_Object, obj_props = [''url'' \<mapsto> JStr ''/users?id=1'']\<rparr>,
      \<lparr>obj_proto = Proto_Object, obj_props = [''statusCode'' \<mapsto> JNum 200]\<rparr>]"

section \<open>The response helper: priority of the rules\<close>

lemma String_num_404: "String_num 404 = ''404''"
  by code_simp

lemma String_num_7: "String_num 7 = ''7''"
  by code_simp

lemma sample_ctx_gates:
  "ctx_respond sample_ctx \<noteq> JBool False" "ctx_writable sample_ctx"
  "ctx_method sample_ctx \<noteq> ''HEAD''" "\<not> res_headersSent (ctx_res sample_ctx)"
  "ctx_status sample_ctx = 200" "ctx_body sample_ctx = BUndefined"
  "\<not> truthy (response_explicitNullBody (ctx_response sample_ctx))"
  by (simp_all add: sample_ctx_def ctx_status_def)

text \<open>
  Claim C3. When the finalizer runs (no bypass was requested and the connection is
  writable) with a status code of the "no body" set 204, 205, 304, it assigns \<^verbatim>\<open>null\<close> to the
  body of the context and ends the response with no payload, whatever the body is: this
  rule comes before the rule for HEAD and before every rule that looks at the body.
\<close>

theorem respond_empty_status:
  assumes "ctx_respond c \<noteq> JBool False" and "ctx_writable c"
    and "ctx_status c = 204 \<or> ctx_status c = 205 \<or> ctx_status c = 304"
  shows "respond stringify (c\<lparr>ctx_body := b\<rparr>) = Inr [Set_body_null, End None]"
  using assms by (simp add: respond_def statuses_empty_def ctx_status_def)

theorem respond_empty_status_witness:
  "respond sample_stringify
     (sample_ctx\<lparr>ctx_res := \<lparr>res_statusCode = 204, res_headersSent = False\<rparr>,
                 ctx_body := BString ''hello''\<rparr>)
   = Inr [Set_body_null, End None]"
  using respond_empty_status
    [where c = "sample_ctx\<lparr>ctx_res := \<lparr>res_statusCode = 204, res_headersSent = False\<rparr>\<rparr>"
      and b = "BString ''hello''" and stringify = sample_stringify]
  by (simp add: sample_ctx_def ctx_status_def)

text \<open>
  For a HEAD request with unsent headers and no content-length header, the claim C4 has the
  content-length set from the would-be body length and the connection closed. It fails on
  two HEAD requests. When the handlers set no body, the length of the response facade is
  \<^verbatim>\<open>undefined\<close>: the response ends with no payload and no length is set. When a handler
  sets the body to a BigInt, reading the length throws: the finalizer throws that
  exception, and it neither sets a length nor ends the response.
\<close>

theorem respond_head_length_counterexample:
  "ctx_respond head_ctx \<noteq> JBool False
   \<and> ctx_writable head_ctx
   \<and> \<not> statuses_empty (ctx_status head_ctx)
   \<and> ctx_method head_ctx = ''HEAD''
   \<and> \<not> res_headersSent (ctx_res head_ctx)
   \<and> \<not> response_has (ctx_response head_ctx) ''Content-Length''
   \<and> respond sample_stringify head_ctx = Inr [End None]
   \<and> respond sample_stringify (head_ctx\<lparr>ctx_body := BOther (BigInt 1)\<rparr>) =
       Inl (TypeError ''Do not know how to serialize a BigInt'')"
  by (simp add: head_ctx_def sample_ctx_def respond_def statuses_empty_def ctx_status_def)

text \<open>
  Claim C4, amended. When the finalizer runs for a HEAD request and no earlier rule matched:
  if the headers are sent or a content-length header exists, the response ends with no
  payload. Otherwise the length of the response facade is read: if it is an integer, the
  content-length is set to it and the response ends with no payload; if it is not an
  integer, no length is set and the response ends with no payload; and if reading it
  throws, the finalizer throws that exception and writes nothing.
\<close>

theorem respond_head:
  assumes "ctx_respond c \<noteq> JBool False" and "ctx_writable c"
    and "\<not> statuses_empty (ctx_status c)" and "ctx_method c = ''HEAD''"
  shows "(res_headersSent (ctx_res c) \<or> response_has (ctx_response c) ''Content-Length'' \<longrightarrow>
            respond stringify c = Inr [End None])
       \<and> (\<not> res_headersSent (ctx_res c) \<and> \<not> response_has (ctx_response c) ''Content-Length''
            \<and> response_length (ctx_response c) (ctx_body c) = Inr (JNum n) \<longrightarrow>
            respond stringify c = Inr [Set_length n, End None])
       \<and> (\<not> res_headersSent (ctx_res c) \<and> \<not> response_has (ctx_response c) ''Content-Length''
            \<and> response_length (ctx_response c) (ctx_body c) = Inr v \<and> (\<forall>k. v \<noteq> JNum k) \<longrightarrow>
            respond stringify c = Inr [End None])
       \<and> (\<not> res_headersSent (ctx_res c) \<and> \<not> response_has (ctx_response c) ''Content-Length''
            \<and> response_length (ctx_response c) (ctx_body c) = Inl e \<longrightarrow>
            respond stringify c = Inl e)"
  using assms by (auto simp add: respond_def split: jsval.splits)

theorem respond_head_witness:
  "respond sample_stringify
     (head_ctx\<lparr>ctx_body := BBuffer ''0123456789012345678901234567890123456789ab''\<rparr>)
   = Inr [Set_length 42, End None]
   \<and> respond sample_stringify (head_ctx\<lparr>ctx_body := BOther (BigInt 1)\<rparr>)
   = Inl (TypeError ''Do not know how to serialize a BigInt'')"
proof -
  have g: "ctx_respond (head_ctx\<lparr>ctx_body := x\<rparr>) \<noteq> JBool False"
    "ctx_writable (head_ctx\<lparr>ctx_body := x\<rparr>)"
    "\<not> statuses_empty (ctx_status (head_ctx\<lparr>ctx_body := x\<rparr>))"
    "ctx_method (head_ctx\<lparr>ctx_body := x\<rparr>) = ''HEAD''"
    "\<not> res_headersSent (ctx_res (head_ctx\<lparr>ctx_body := x\<rparr>))"
    "\<not> response_has (ctx_response (head_ctx\<lparr>ctx_body := x\<rparr>)) ''Content-Length''"
    "response_length (ctx_response (head_ctx\<lparr>ctx_body := x\<rparr>)) (ctx_body (head_ctx\<lparr>ctx_body := x\<rparr>))
       = sample_length x" for x
    by (simp_all add: head_ctx_def sample_ctx_def statuses_empty_def ctx_status_def)
  have l1: "sample_length (BBuffer ''0123456789012345678901234567890123456789ab'') = Inr (JNum 42)"
    by simp
  have l2: "sample_length (BOther (BigInt 1)) = Inl (TypeError ''Do not know how to serialize a BigInt'')"
    by simp
  show ?thesis
    using respond_head [where c = "head_ctx\<lparr>ctx_body := BBuffer ''0123456789012345678901234567890123456789ab''\<rparr>"
        and n = 42 and stringify = sample_stringify, OF g(1) g(2) g(3) g(4)]
      respond_head [where c = "head_ctx\<lparr>ctx_body := BOther (BigInt 1)\<rparr>"
        and e = "TypeError ''Do not know how to serialize a BigInt''"
        and stringify = sample_stringify, OF g(1) g(2) g(3) g(4)]
      g(5) g(6) g(7) l1 l2
    by simp
qed

text \<open>
  Claim C5. When the finalizer runs with an absent body (\<^verbatim>\<open>null\<close> or \<^verbatim>\<open>undefined\<close>) and no
  earlier rule matched: with the explicit null body flag set, the content-type and
  transfer-encoding headers are removed and the response ends with no payload. Otherwise
  the body is a text, the status code in digits from HTTP/2 on, and before that the status
  message, or the digits when there is no message; with unsent headers the type is set to
  text and the length to the byte length of that text; the text is sent as the payload.
\<close>

theorem respond_absent_body:
  assumes "ctx_respond c \<noteq> JBool False" and "ctx_writable c"
    and "\<not> statuses_empty (ctx_status c)" and "ctx_method c \<noteq> ''HEAD''"
    and "ctx_body c = BUndefined \<or> ctx_body c = BNull"
    and "synth = (if 2 \<le> req_httpVersionMajor (ctx_req c) then String_num (ctx_status c)
                  else (case ctx_message c (ctx_status c) of
                          None \<Rightarrow> String_num (ctx_status c)
                        | Some m \<Rightarrow> if m = [] then String_num (ctx_status c) else m))"
  shows "(truthy (response_explicitNullBody (ctx_response c)) \<longrightarrow>
            respond stringify c =
              Inr [Remove ''Content-Type'', Remove ''Transfer-Encoding'', End None])
       \<and> (\<not> truthy (response_explicitNullBody (ctx_response c)) \<and> \<not> res_headersSent (ctx_res c) \<longrightarrow>
            respond stringify c =
              Inr [Set_type ''text'', Set_length (int (length synth)), End (Some (Str synth))])
       \<and> (\<not> truthy (response_explicitNullBody (ctx_response c)) \<and> res_headersSent (ctx_res c) \<longrightarrow>
            respond stringify c = Inr [End (Some (Str synth))])"
  using assms
  by (auto simp add: respond_def respond_status_body_def status_body_def Buffer_byteLength_def)

theorem respond_absent_body_witness:
  "respond sample_stringify sample_ctx =
     Inr [Set_type ''text'', Set_length 2, End (Some (Str ''OK''))]"
proof -
  have e: "\<not> statuses_empty (ctx_status sample_ctx)"
    by (simp add: sample_ctx_gates statuses_empty_def)
  have b: "ctx_body sample_ctx = BUndefined \<or> ctx_body sample_ctx = BNull"
    by (simp add: sample_ctx_gates)
  have t: "''OK'' =
      (if 2 \<le> req_httpVersionMajor (ctx_req sample_ctx) then String_num (ctx_status sample_ctx)
       else (case ctx_message sample_ctx (ctx_status sample_ctx) of
               None \<Rightarrow> String_num (ctx_status sample_ctx)
             | Some m \<Rightarrow> if m = [] then String_num (ctx_status sample_ctx) else m))"
    by (simp add: sample_ctx_gates) (simp add: sample_ctx_def sample_message_def)
  show ?thesis
    using respond_absent_body [OF sample_ctx_gates(1) sample_ctx_gates(2) e sample_ctx_gates(3) b t,
        of sample_stringify] sample_ctx_gates(4) sample_ctx_gates(7)
    by simp
qed

text \<open>
  The claim C6 has every body that is neither \<^verbatim>\<open>Buffer\<close>, string nor stream serialized and
  the encoding written. For a BigInt \<^verbatim>\<open>JSON.stringify\<close> throws, and for a function it
  returns \<^verbatim>\<open>undefined\<close>, whose byte length cannot be taken: in both cases the finalizer
  throws and writes nothing.
\<close>

theorem respond_present_body_counterexample:
  "respond sample_stringify (sample_ctx\<lparr>ctx_body := BOther (BigInt 1)\<rparr>) =
     Inl (TypeError ''Do not know how to serialize a BigInt'')
   \<and> respond sample_stringify (sample_ctx\<lparr>ctx_body := BOther Func\<rparr>) =
     Inl (TypeError ''ERR_INVALID_ARG_TYPE'')"
  by (simp add: sample_ctx_def respond_def statuses_empty_def ctx_status_def)

text \<open>
  Claim C6, amended. When the finalizer runs with a body and no earlier rule matched: a
  \<^verbatim>\<open>Buffer\<close> or a string is the payload as it is; a stream is piped to the response, and
  neither a length nor a payload is written by the helper; any other value is handed to the
  serializer. When that returns an encoding, the length is set to the byte length of the
  encoding if the headers are unsent, and the encoding is the payload. When it throws, the
  finalizer throws the same exception and writes nothing. When it returns \<^verbatim>\<open>undefined\<close>, the
  finalizer throws a TypeError and writes nothing if the headers are unsent, and ends the
  response with no payload if they are sent.
\<close>

theorem respond_present_body:
  assumes "ctx_respond c \<noteq> JBool False" and "ctx_writable c"
    and "\<not> statuses_empty (ctx_status c)" and "ctx_method c \<noteq> ''HEAD''"
  shows "(ctx_body c = BBuffer b \<longrightarrow> respond stringify c = Inr [End (Some (Buf b))])
       \<and> (ctx_body c = BString s \<longrightarrow> respond stringify c = Inr [End (Some (Str s))])
       \<and> (ctx_body c = BStream st \<longrightarrow> respond stringify c = Inr [Pipe st])
       \<and> (ctx_body c = BOther v \<and> stringify v = Inr (Some enc) \<and> \<not> res_headersSent (ctx_res c) \<longrightarrow>
            respond stringify c = Inr [Set_length (int (length enc)), End (Some (Str enc))])
       \<and> (ctx_body c = BOther v \<and> stringify v = Inr (Some enc) \<and> res_headersSent (ctx_res c) \<longrightarrow>
            respond stringify c = Inr [End (Some (Str enc))])
       \<and> (ctx_body c = BOther v \<and> stringify v = Inl e \<longrightarrow> respond stringify c = Inl e)
       \<and> (ctx_body c = BOther v \<and> stringify v = Inr None \<and> \<not> res_headersSent (ctx_res c) \<longrightarrow>
            respond stringify c = Inl (TypeError ''ERR_INVALID_ARG_TYPE''))
       \<and> (ctx_body c = BOther v \<and> stringify v = Inr None \<and> res_headersSent (ctx_res c) \<longrightarrow>
            respond stringify c = Inr [End None])"
  using assms by (auto simp add: respond_def Buffer_byteLength_def)

theorem respond_present_body_witness:
  "respond sample_stringify (sample_ctx\<lparr>ctx_body := BOther (Number 7)\<rparr>) =
     Inr [Set_length 1, End (Some (Str ''7''))]
   \<and> respond sample_stringify (sample_ctx\<lparr>ctx_body := BStream ()\<rparr>) = Inr [Pipe ()]
   \<and> respond sample_stringify (sample_ctx\<lparr>ctx_body := BOther (BigInt 1)\<rparr>) =
     Inl (TypeError ''Do not know how to serialize a BigInt'')"
proof -
  have e: "\<not> statuses_empty (ctx_status (sample_ctx\<lparr>ctx_body := x\<rparr>))" for x
    by (simp add: sample_ctx_def ctx_status_def statuses_empty_def)
  have g: "ctx_respond (sample_ctx\<lparr>ctx_body := x\<rparr>) \<noteq> JBool False"
    "ctx_writable (sample_ctx\<lparr>ctx_body := x\<rparr>)"
    "ctx_method (sample_ctx\<lparr>ctx_body := x\<rparr>) \<noteq> ''HEAD''"
    "\<not> res_headersSent (ctx_res (sample_ctx\<lparr>ctx_body := x\<rparr>))" for x
    by (simp_all add: sample_ctx_gates)
  show ?thesis
    using respond_present_body [where c = "sample_ctx\<lparr>ctx_body := BOther (Number 7)\<rparr>"
        and v = "Number 7" and enc = "''7''" and stringify = sample_stringify,
        OF g(1) g(2) e g(3)]
      respond_present_body [where c = "sample_ctx\<lparr>ctx_body := BStream ()\<rparr>"
        and st = "()" and stringify = sample_stringify, OF g(1) g(2) e g(3)]
      respond_present_body [where c = "sample_ctx\<lparr>ctx_body := BOther (BigInt 1)\<rparr>"
        and v = "BigInt 1" and e = "TypeError ''Do not know how to serialize a BigInt''"
        and stringify = sample_stringify, OF g(1) g(2) e g(3)]
      g(4)
    by (simp add: String_num_7)
qed

text \<open>
  Claim C10. The bypass happens only when the respond flag of the context is the boolean
  \<^verbatim>\<open>false\<close>. With that value the finalizer does nothing. With any other value, the falsy
  \<^verbatim>\<open>0\<close>, \<^verbatim>\<open>null\<close>, \<^verbatim>\<open>undefined\<close> and the empty string among them, it does what it does
  when the flag is \<^verbatim>\<open>true\<close>, and on a writable connection that is never nothing.
\<close>

lemma head_branch_not_empty:
  "(case len of
      Inl e \<Rightarrow> Inl e
    | Inr (JNum n) \<Rightarrow> Inr [Set_length n, End None]
    | Inr _ \<Rightarrow> Inr [End None]) \<noteq> (Inr [] :: exn + 's effect list)"
proof (cases len)
  case (Inl e)
  then show ?thesis by simp
next
  case (Inr v)
  then show ?thesis by (cases v) simp_all
qed

lemma respond_status_body_not_empty: "respond_status_body c \<noteq> Inr []"
  by (simp add: respond_status_body_def)

lemma respond_not_empty:
  assumes "ctx_respond c \<noteq> JBool False" and "ctx_writable c"
  shows "respond stringify c \<noteq> Inr []"
proof (cases "ctx_body c")
  case (BOther v)
  show ?thesis
  proof (cases "stringify v")
    case (Inl e)
    then show ?thesis
      using assms BOther by (simp add: respond_def head_branch_not_empty)
  next
    case (Inr res)
    then show ?thesis
      using assms BOther by (cases res) (simp_all add: respond_def head_branch_not_empty)
  qed
next
  case BUndefined
  then show ?thesis
    using assms by (simp add: respond_def head_branch_not_empty respond_status_body_not_empty)
next
  case BNull
  then show ?thesis
    using assms by (simp add: respond_def head_branch_not_empty respond_status_body_not_empty)
next
  case (BBuffer b)
  then show ?thesis
    using assms by (simp add: respond_def head_branch_not_empty)
next
  case (BString s)
  then show ?thesis
    using assms by (simp add: respond_def head_branch_not_empty)
next
  case (BStream st)
  then show ?thesis
    using assms by (simp add: respond_def head_branch_not_empty)
qed

theorem respond_bypass:
  "respond stringify (c\<lparr>ctx_respond := JBool False\<rparr>) = Inr []
   \<and> (v \<noteq> JBool False \<longrightarrow>
        respond stringify (c\<lparr>ctx_respond := v\<rparr>) = respond stringify (c\<lparr>ctx_respond := JBool True\<rparr>))
   \<and> (v \<noteq> JBool False \<and> ctx_writable c \<longrightarrow> respond stringify (c\<lparr>ctx_respond := v\<rparr>) \<noteq> Inr [])"
proof (intro conjI impI)
  show "respond stringify (c\<lparr>ctx_respond := JBool False\<rparr>) = Inr []"
    by (simp add: respond_def)
next
  assume "v \<noteq> JBool False"
  then show "respond stringify (c\<lparr>ctx_respond := v\<rparr>)
      = respond stringify (c\<lparr>ctx_respond := JBool True\<rparr>)"
    by (auto simp add: respond_def respond_status_body_def status_body_def ctx_status_def
        split: body.splits sum.splits option.splits jsval.splits)
next
  assume "v \<noteq> JBool False \<and> ctx_writable c"
  then show "respond stringify (c\<lparr>ctx_respond := v\<rparr>) \<noteq> Inr []"
    using respond_not_empty [of "c\<lparr>ctx_respond := v\<rparr>" stringify] by simp
qed

theorem respond_bypass_witness:
  "respond sample_stringify (sample_ctx\<lparr>ctx_respond := JBool False\<rparr>) = Inr []
   \<and> respond sample_stringify (sample_ctx\<lparr>ctx_respond := JNum 0\<rparr>)
       = respond sample_stringify (sample_ctx\<lparr>ctx_respond := JBool True\<rparr>)
   \<and> respond sample_stringify (sample_ctx\<lparr>ctx_respond := JNull\<rparr>)
       = respond sample_stringify (sample_ctx\<lparr>ctx_respond := JBool True\<rparr>)
   \<and> respond sample_stringify (sample_ctx\<lparr>ctx_respond := JUndefined\<rparr>)
       = respond sample_stringify (sample_ctx\<lparr>ctx_respond := JBool True\<rparr>)
   \<and> respond sample_stringify (sample_ctx\<lparr>ctx_respond := JStr []\<rparr>)
       = respond sample_stringify (sample_ctx\<lparr>ctx_respond := JBool True\<rparr>)
   \<and> respond sample_stringify (sample_ctx\<lparr>ctx_respond := JNum 0\<rparr>) \<noteq> Inr []"
  using respond_bypass [of sample_stringify sample_ctx "JNum 0"]
    respond_bypass [of sample_stringify sample_ctx JNull]
    respond_bypass [of sample_stringify sample_ctx JUndefined]
    respond_bypass [of sample_stringify sample_ctx "JStr []"]
    respond_bypass [of sample_stringify sample_ctx "JBool True"]
    sample_ctx_gates(2)
  by simp

section \<open>The dispatcher: which callback runs, and how often\<close>

lemma finalizer_calls_append:
  "finalizer_calls (xs @ ys) = finalizer_calls xs + finalizer_calls ys"
  by (induction xs rule: finalizer_calls.induct) simp_all

lemma chain_onerror_calls_append:
  "chain_onerror_calls (xs @ ys) = chain_onerror_calls xs + chain_onerror_calls ys"
  by (induction xs rule: chain_onerror_calls.induct) simp_all

lemma listener_onerror_calls_append:
  "listener_onerror_calls (xs @ ys) = listener_onerror_calls xs + listener_onerror_calls ys"
  by (induction xs rule: listener_onerror_calls.induct) simp_all

lemma terminal_writes_append:
  "terminal_writes (xs @ ys) = terminal_writes xs + terminal_writes ys"
  by (induction xs rule: terminal_writes.induct) simp_all

lemma terminal_writes_onerror:
  "terminal_writes [onerror_call err c] = (if ctx_onerror err c = Emitted_and_ended then 1 else 0)"
  by (cases "ctx_onerror err c") (simp_all add: onerror_call_def)

lemma onerror_call_counts [simp]:
  "finalizer_calls [onerror_call err c] = 0"
  "chain_onerror_calls [onerror_call (Reason e) c] = 1"
  "chain_onerror_calls [onerror_call (Raised x) c] = 1"
  "chain_onerror_calls [onerror_call (Signal s) c] = 0"
  "listener_onerror_calls [onerror_call (Reason e) c] = 0"
  "listener_onerror_calls [onerror_call (Raised x) c] = 0"
  "listener_onerror_calls [onerror_call (Signal s) c] = 1"
  by (simp_all add: onerror_call_def)

text \<open>One call of the helper ends or pipes the response at most once.\<close>

lemma respond_writes_once:
  "respond stringify c = Inr effs \<Longrightarrow> length (filter is_write effs) \<le> 1"
  by (auto simp add: respond_def respond_status_body_def
      split: if_splits jsval.splits body.splits sum.splits option.splits)

text \<open>On a response that is not writable neither callback writes.\<close>

lemma respond_unwritable: "\<not> ctx_writable c \<Longrightarrow> respond stringify c = Inr []"
  by (simp add: respond_def)

lemma ctx_onerror_unwritable: "\<not> ctx_writable c \<Longrightarrow> ctx_onerror err c \<noteq> Emitted_and_ended"
  by (simp add: ctx_onerror_def)

lemma seen_finished: "\<not> rq_listening r \<Longrightarrow> \<not> ctx_writable (seen r c)"
  by (simp add: seen_def)

text \<open>
  The counts after any sequence of events, from any state of a request: the promise
  reactions run at the first \<open>Settle\<close> of a request that has not settled, the listener at
  the first \<open>Finished\<close> while it is still registered.
\<close>

lemma run_finalizer_calls:
  "finalizer_calls (rq_calls (run stringify r evs)) =
     finalizer_calls (rq_calls r)
     + (if \<not> rq_settled r \<and> Settle \<in> set evs \<and> fst (rq_pipeline r (rq_ctx r)) = Fulfilled
        then 1 else 0)"
proof (induction evs arbitrary: r)
  case Nil
  then show ?case by simp
next
  case (Cons ev evs)
  show ?case
  proof (cases ev)
    case Settle
    then show ?thesis
      using Cons.IH [of "step stringify r ev"]
      by (auto simp add: finalizer_calls_append split: prod.splits outcome.splits sum.splits)
  next
    case (Finished err)
    then show ?thesis
      using Cons.IH [of "step stringify r ev"]
      by (auto simp add: finalizer_calls_append)
  qed
qed

lemma run_chain_onerror_calls:
  "chain_onerror_calls (rq_calls (run stringify r evs)) =
     chain_onerror_calls (rq_calls r)
     + (if \<not> rq_settled r \<and> Settle \<in> set evs
           \<and> (fst (rq_pipeline r (rq_ctx r)) \<noteq> Fulfilled
               \<or> isl (respond stringify
                        ((snd (rq_pipeline r (rq_ctx r)))
                           \<lparr>ctx_writable := ctx_writable (snd (rq_pipeline r (rq_ctx r)))
                              \<and> rq_listening r \<and> \<not> finished_first evs\<rparr>)))
        then 1 else 0)"
proof (induction evs arbitrary: r)
  case Nil
  then show ?case by simp
next
  case (Cons ev evs)
  show ?case
  proof (cases ev)
    case Settle
    then show ?thesis
      using Cons.IH [of "step stringify r ev"]
      by (auto simp add: chain_onerror_calls_append seen_def
          split: prod.splits outcome.splits sum.splits)
  next
    case (Finished err)
    then show ?thesis
      using Cons.IH [of "step stringify r ev"]
      by (auto simp add: chain_onerror_calls_append respond_unwritable)
  qed
qed

lemma run_listener_onerror_calls:
  "listener_onerror_calls (rq_calls (run stringify r evs)) =
     listener_onerror_calls (rq_calls r)
     + (if rq_listening r \<and> (\<exists>err. Finished err \<in> set evs) then 1 else 0)"
proof (induction evs arbitrary: r)
  case Nil
  then show ?case by simp
next
  case (Cons ev evs)
  show ?case
  proof (cases ev)
    case Settle
    then show ?thesis
      using Cons.IH [of "step stringify r ev"]
      by (auto simp add: listener_onerror_calls_append split: prod.splits outcome.splits sum.splits)
  next
    case (Finished err)
    then show ?thesis
      using Cons.IH [of "step stringify r ev"]
      by (auto simp add: listener_onerror_calls_append)
  qed
qed

text \<open>
  The writes: at most one more while the promise has not settled, none after that, and
  none at all once the listener has been told that the response has finished.
\<close>

lemma step_terminal_writes:
  "terminal_writes (rq_calls (step stringify r ev))
     \<le> terminal_writes (rq_calls r) + (if rq_settled r \<or> \<not> rq_listening r then 0 else 1)"
proof (cases ev)
  case Settle
  show ?thesis
  proof (cases "rq_listening r")
    case True
    then show ?thesis
      using Settle
      by (auto simp add: terminal_writes_append terminal_writes_onerror
          split: prod.splits outcome.splits sum.splits dest: respond_writes_once)
  next
    case False
    then have "respond stringify (seen r c) = Inr []"
      and "ctx_onerror (Reason e) (seen r c) \<noteq> Emitted_and_ended"
      and "ctx_onerror (Raised x) (seen r c) \<noteq> Emitted_and_ended" for c e x
      by (simp_all add: respond_unwritable ctx_onerror_unwritable seen_finished)
    then show ?thesis
      using Settle False
      by (auto simp add: terminal_writes_append terminal_writes_onerror
          split: prod.splits outcome.splits sum.splits)
  qed
next
  case (Finished err)
  then show ?thesis
    by (auto simp add: terminal_writes_append terminal_writes_onerror
        ctx_onerror_unwritable seen_finished)
qed

lemma step_settles_or_finishes:
  "rq_settled (step stringify r ev) \<or> \<not> rq_listening (step stringify r ev)"
  by (cases ev) (auto split: prod.splits outcome.splits sum.splits)

lemma run_no_more_writes:
  "rq_settled r \<or> \<not> rq_listening r \<Longrightarrow>
     terminal_writes (rq_calls (run stringify r evs)) = terminal_writes (rq_calls r)"
proof (induction evs arbitrary: r)
  case Nil
  then show ?case by simp
next
  case (Cons ev evs)
  have "rq_settled (step stringify r ev) \<or> \<not> rq_listening (step stringify r ev)"
    by (rule step_settles_or_finishes)
  then have "terminal_writes (rq_calls (run stringify (step stringify r ev) evs))
      = terminal_writes (rq_calls (step stringify r ev))"
    by (rule Cons.IH)
  moreover have "terminal_writes (rq_calls (step stringify r ev)) \<le> terminal_writes (rq_calls r)"
    using step_terminal_writes [of stringify r ev] Cons.prems by auto
  moreover have "terminal_writes (rq_calls r) \<le> terminal_writes (rq_calls (step stringify r ev))"
    by (cases ev)
      (auto simp add: terminal_writes_append split: prod.splits outcome.splits sum.splits)
  ultimately show ?case by simp
qed

lemma run_terminal_writes:
  "terminal_writes (rq_calls (run stringify r evs)) \<le> terminal_writes (rq_calls r) + 1"
proof (cases evs)
  case Nil
  then show ?thesis by simp
next
  case (Cons ev evs')
  have "terminal_writes (rq_calls (run stringify (step stringify r ev) evs'))
      = terminal_writes (rq_calls (step stringify r ev))"
    using step_settles_or_finishes by (rule run_no_more_writes)
  then show ?thesis
    using Cons step_terminal_writes [of stringify r ev] by (auto split: if_splits)
qed

text \<open>
  The claim C1 has success and failure exclude each other, and the error handler run
  exactly once when the pipeline fails, a connection that fails before included. Two
  requests against it. A pipeline that succeeds after a handler has set the body to a
  BigInt: \<^verbatim>\<open>handleResponse\<close> runs, \<^verbatim>\<open>JSON.stringify\<close> throws inside it, and \<^verbatim>\<open>catch\<close>, which
  follows \<^verbatim>\<open>then\<close>, calls \<^verbatim>\<open>onerror\<close> for the same request. And a connection that fails
  before the pipeline rejects: \<^verbatim>\<open>onerror\<close> is called by the listener, and called again by
  \<^verbatim>\<open>catch\<close>.
\<close>

theorem handleRequest_exclusive_counterexample:
  "rq_calls (run sample_stringify (handleRequest sample_ctx bigint_pipeline) [Settle]) =
     [Call_respond (Inl (TypeError ''Do not know how to serialize a BigInt'')),
      Call_onerror (Raised (TypeError ''Do not know how to serialize a BigInt'')) Emitted_and_ended]
   \<and> rq_calls (run sample_stringify (handleRequest sample_ctx throwing_pipeline)
        [Finished (Some ''aborted''), Settle]) =
     [Call_onerror (Signal (Some ''aborted'')) Emitted,
      Call_onerror (Reason (Some ''boom'')) Emitted]"
  by (simp add: handleRequest_def sample_ctx_def bigint_pipeline_def throwing_pipeline_def
      respond_def statuses_empty_def ctx_status_def seen_def ctx_onerror_def onerror_call_def)

text \<open>
  Claim C1, amended. For every request and every order of events: the finalizer is called
  once if the pipeline settles fulfilled, and not at all otherwise; the promise chain
  calls the error handler once if the pipeline settles rejected or the finalizer itself
  throws after a fulfilled pipeline, and not at all otherwise; the listener on the
  transport response calls the error handler once more if the response is reported
  finished, closed or failed; and the terminal response is written at most once, by the
  finalizer or by the error handler, and not at all when the response is reported finished
  before the pipeline settles.
\<close>

theorem handleRequest_calls:
  assumes "fn (rq_ctx (handleRequest c fn)) = (out, c1)"
    and "c2 = c1\<lparr>ctx_writable := ctx_writable c1 \<and> \<not> finished_first evs\<rparr>"
    and "calls = rq_calls (run stringify (handleRequest c fn) evs)"
  shows "finalizer_calls calls = (if Settle \<in> set evs \<and> out = Fulfilled then 1 else 0)
       \<and> chain_onerror_calls calls =
           (if Settle \<in> set evs \<and> (out \<noteq> Fulfilled \<or> isl (respond stringify c2)) then 1 else 0)
       \<and> listener_onerror_calls calls = (if \<exists>err. Finished err \<in> set evs then 1 else 0)
       \<and> terminal_writes calls \<le> 1
       \<and> (finished_first evs \<longrightarrow> terminal_writes calls = 0)"
proof (intro conjI)
  have p: "rq_pipeline (handleRequest c fn) (rq_ctx (handleRequest c fn)) = (out, c1)"
    using assms(1) by (simp add: handleRequest_def)
  have i: "\<not> rq_settled (handleRequest c fn)" "rq_listening (handleRequest c fn)"
    "rq_calls (handleRequest c fn) = []"
    by (simp_all add: handleRequest_def)
  show "finalizer_calls calls = (if Settle \<in> set evs \<and> out = Fulfilled then 1 else 0)"
    using p i by (simp add: assms(3) run_finalizer_calls)
  show "chain_onerror_calls calls =
      (if Settle \<in> set evs \<and> (out \<noteq> Fulfilled \<or> isl (respond stringify c2)) then 1 else 0)"
    using p i by (simp add: assms(2) assms(3) run_chain_onerror_calls)
  show "listener_onerror_calls calls = (if \<exists>err. Finished err \<in> set evs then 1 else 0)"
    using i by (simp add: assms(3) run_listener_onerror_calls)
  show "terminal_writes calls \<le> 1"
    using run_terminal_writes [of stringify "handleRequest c fn" evs] i
    by (simp add: assms(3))
  show "finished_first evs \<longrightarrow> terminal_writes calls = 0"
  proof
    assume "finished_first evs"
    then obtain err evs' where evs: "evs = Finished err # evs'"
      by (cases evs rule: finished_first.cases) simp_all
    have "\<not> rq_listening (step stringify (handleRequest c fn) (Finished err))"
      by (simp add: i)
    then have "terminal_writes (rq_calls (run stringify (step stringify (handleRequest c fn) (Finished err)) evs'))
        = terminal_writes (rq_calls (step stringify (handleRequest c fn) (Finished err)))"
      by (simp add: run_no_more_writes)
    moreover have "terminal_writes (rq_calls (step stringify (handleRequest c fn) (Finished err))) = 0"
      using i by (simp add: terminal_writes_onerror ctx_onerror_unwritable seen_def)
    ultimately show "terminal_writes calls = 0"
      by (simp add: assms(3) evs)
  qed
qed

text \<open>
  A pipeline that rejects on a connection that stays open: no call of the finalizer, one
  call of the error handler, which writes the error response, and so one terminal write.
  And a HEAD request whose handler sets the body to a BigInt: the finalizer is called and
  throws when it reads the length, and the chain calls the error handler once.
\<close>

theorem handleRequest_calls_witness:
  "finalizer_calls (rq_calls (run sample_stringify (handleRequest sample_ctx throwing_pipeline)
      [Settle])) = 0
   \<and> chain_onerror_calls (rq_calls (run sample_stringify (handleRequest sample_ctx throwing_pipeline)
      [Settle])) = 1
   \<and> listener_onerror_calls (rq_calls (run sample_stringify (handleRequest sample_ctx throwing_pipeline)
      [Settle])) = 0
   \<and> terminal_writes (rq_calls (run sample_stringify (handleRequest sample_ctx throwing_pipeline)
      [Settle])) \<le> 1
   \<and> rq_calls (run sample_stringify (handleRequest sample_ctx throwing_pipeline) [Settle]) =
       [Call_onerror (Reason (Some ''boom'')) Emitted_and_ended]
   \<and> finalizer_calls (rq_calls (run sample_stringify (handleRequest head_ctx bigint_pipeline)
      [Settle])) = 1
   \<and> chain_onerror_calls (rq_calls (run sample_stringify (handleRequest head_ctx bigint_pipeline)
      [Settle])) = 1"
proof -
  have h1: "throwing_pipeline (rq_ctx (handleRequest sample_ctx throwing_pipeline))
      = (Rejected (Some ''boom''), rq_ctx (handleRequest sample_ctx throwing_pipeline))"
    by (simp add: throwing_pipeline_def)
  have c: "rq_calls (run sample_stringify (handleRequest sample_ctx throwing_pipeline) [Settle]) =
       [Call_onerror (Reason (Some ''boom'')) Emitted_and_ended]"
    by (simp add: handleRequest_def sample_ctx_def throwing_pipeline_def seen_def ctx_onerror_def
        onerror_call_def)
  have h2: "bigint_pipeline (rq_ctx (handleRequest head_ctx bigint_pipeline))
      = (Fulfilled, head_ctx\<lparr>ctx_body := BOther (BigInt 1)\<rparr>)"
    by (simp add: bigint_pipeline_def handleRequest_def head_ctx_def sample_ctx_def)
  have t: "isl (respond sample_stringify
      (head_ctx\<lparr>ctx_body := BOther (BigInt 1), ctx_writable := True\<rparr>))"
    by (simp add: head_ctx_def sample_ctx_def respond_def statuses_empty_def ctx_status_def)
  have w: "ctx_writable head_ctx"
    by (simp add: head_ctx_def sample_ctx_def)
  show ?thesis
    using handleRequest_calls [where fn = throwing_pipeline and c = sample_ctx
        and evs = "[Settle]" and stringify = sample_stringify, OF h1 refl refl] c
      handleRequest_calls [where fn = bigint_pipeline and c = head_ctx
        and evs = "[Settle]" and stringify = sample_stringify, OF h2 refl refl] t w
    by (simp del: run.simps)
qed

text \<open>
  The claim C2 has every pipeline that sets neither status nor body end with the status
  body as payload. For a HEAD request the rule for HEAD comes first: the status is 404, and
  the response ends with no payload and no length.
\<close>

theorem handleRequest_default_status_head_counterexample:
  "rq_calls (run sample_stringify (handleRequest head_ctx empty_pipeline) [Settle]) =
     [Call_respond (Inr [End None])]"
  by (simp add: handleRequest_def head_ctx_def sample_ctx_def empty_pipeline_def respond_def
      statuses_empty_def ctx_status_def seen_def)

text \<open>
  Claim C2, amended. Before any handler runs the dispatcher sets the status code of the
  transport response to 404, and the handlers run on that context. If the pipeline then
  succeeds and no handler sets a status or a body, and the request is not a HEAD request
  (no bypass requested, connection writable, explicit null body flag unset), the response
  has status 404 and the payload is the text "404" from HTTP/2 on, and before that the
  message of the status, or "404" when there is no message; when the headers are unsent
  the type is set to text and the length to the byte length of that payload.
\<close>

theorem handleRequest_default_status:
  assumes "fn (rq_ctx (handleRequest c fn)) = (Fulfilled, c')"
    and "ctx_status c' = ctx_status (rq_ctx (handleRequest c fn))"
    and "ctx_body c = BUndefined" and "ctx_body c' = ctx_body c"
    and "\<not> truthy (response_explicitNullBody (ctx_response c'))"
    and "ctx_respond c' \<noteq> JBool False" and "ctx_writable c'" and "ctx_method c' \<noteq> ''HEAD''"
    and "synth = (if 2 \<le> req_httpVersionMajor (ctx_req c') then ''404''
                  else (case ctx_message c' 404 of
                          None \<Rightarrow> ''404''
                        | Some m \<Rightarrow> if m = [] then ''404'' else m))"
  shows "ctx_status (rq_ctx (handleRequest c fn)) = 404
       \<and> rq_calls (handleRequest c fn) = []
       \<and> ctx_status (rq_ctx (run stringify (handleRequest c fn) [Settle])) = 404
       \<and> rq_calls (run stringify (handleRequest c fn) [Settle]) =
           [Call_respond (Inr ((if res_headersSent (ctx_res c') then []
                                else [Set_type ''text'', Set_length (int (length synth))])
                               @ [End (Some (Str synth))]))]"
proof -
  have st: "ctx_status (rq_ctx (handleRequest c fn)) = 404"
    by (simp add: handleRequest_def ctx_status_def)
  have st': "ctx_status c' = 404"
    using assms(2) st by simp
  have body: "status_body c' = synth"
    using assms(9) st' by (simp add: status_body_def String_num_404 split: option.splits)
  have r: "respond stringify c' =
      Inr ((if res_headersSent (ctx_res c') then []
            else [Set_type ''text'', Set_length (int (length synth))])
           @ [End (Some (Str synth))])"
    using assms(3-8) st' body
    by (simp add: respond_def respond_status_body_def statuses_empty_def Buffer_byteLength_def)
  have p: "rq_pipeline (handleRequest c fn) (rq_ctx (handleRequest c fn)) = (Fulfilled, c')"
    using assms(1) by (simp add: handleRequest_def)
  have s: "\<not> rq_settled (handleRequest c fn)" and e: "rq_calls (handleRequest c fn) = []"
    and l: "seen (handleRequest c fn) c' = c'"
    by (simp_all add: handleRequest_def seen_def)
  show ?thesis
    using st st' r p s e l by simp
qed

theorem handleRequest_default_status_witness:
  "ctx_status (rq_ctx (handleRequest sample_ctx empty_pipeline)) = 404
   \<and> rq_calls (run sample_stringify (handleRequest sample_ctx empty_pipeline) [Settle]) =
       [Call_respond (Inr [Set_type ''text'', Set_length 9, End (Some (Str ''Not Found''))])]"
proof -
  have h1: "empty_pipeline (rq_ctx (handleRequest sample_ctx empty_pipeline))
      = (Fulfilled, rq_ctx (handleRequest sample_ctx empty_pipeline))"
    by (simp add: empty_pipeline_def)
  have c': "rq_ctx (handleRequest sample_ctx empty_pipeline)
      = sample_ctx\<lparr>ctx_res := \<lparr>res_statusCode = 404, res_headersSent = False\<rparr>\<rparr>"
    by (simp add: handleRequest_def sample_ctx_def)
  have h4: "ctx_body (rq_ctx (handleRequest sample_ctx empty_pipeline)) = ctx_body sample_ctx"
    and h5: "\<not> truthy (response_explicitNullBody
        (ctx_response (rq_ctx (handleRequest sample_ctx empty_pipeline))))"
    and h6: "ctx_respond (rq_ctx (handleRequest sample_ctx empty_pipeline)) \<noteq> JBool False"
    and h7: "ctx_writable (rq_ctx (handleRequest sample_ctx empty_pipeline))"
    and h8: "ctx_method (rq_ctx (handleRequest sample_ctx empty_pipeline)) \<noteq> ''HEAD''"
    and h10: "\<not> res_headersSent (ctx_res (rq_ctx (handleRequest sample_ctx empty_pipeline)))"
    by (simp_all add: c' sample_ctx_gates)
  have h9: "''Not Found'' =
      (if 2 \<le> req_httpVersionMajor (ctx_req (rq_ctx (handleRequest sample_ctx empty_pipeline)))
       then ''404''
       else (case ctx_message (rq_ctx (handleRequest sample_ctx empty_pipeline)) 404 of
               None \<Rightarrow> ''404''
             | Some m \<Rightarrow> if m = [] then ''404'' else m))"
    by (simp add: c') (simp add: sample_ctx_def sample_message_def)
  show ?thesis
    using handleRequest_default_status [OF h1 refl sample_ctx_gates(6) h4 h5 h6 h7 h8 h9,
        of sample_stringify] h10
    by simp
qed

section \<open>The default error handler\<close>

lemma lines_of_not_Nil: "lines_of s \<noteq> []"
  by (induction s rule: lines_of.induct) (simp_all split: list.splits)

text \<open>The replacement puts the indent in front of every line of the text.\<close>

lemma after_terminators_lines:
  "ind @ after_terminators ind s = concat (map ((@) ind) (lines_of s))"
proof (induction ind s rule: after_terminators.induct)
  case (1 ind)
  then show ?case by simp
next
  case (2 ind c cs)
  obtain l ls where L: "lines_of cs = l # ls"
    using lines_of_not_Nil [of cs] by (cases "lines_of cs") auto
  show ?case
  proof (cases "c = CHR 0x0A \<or> c = CHR 0x0D")
    case True
    then show ?thesis using 2 by auto
  next
    case nl: False
    show ?thesis
    proof (cases "c = CHR 0xE2 \<and> (take 2 cs = [CHR 0x80, CHR 0xA8] \<or> take 2 cs = [CHR 0x80, CHR 0xA9])")
      case True
      then show ?thesis using nl 2 by auto
    next
      case False
      then have "ind @ after_terminators ind cs = concat (map ((@) ind) (lines_of cs))"
        using nl 2 by auto
      then show ?thesis using nl False L by auto
    qed
  qed
qed

lemma replace_line_starts_lines:
  "replace_line_starts s ind = concat (map ((@) ind) (lines_of s))"
  by (simp add: replace_line_starts_def after_terminators_lines)

text \<open>
  Claim C7. Called with an error, the default handler logs nothing exactly when the status
  of the error is 404, or its expose flag is set, or the application is silent. In every
  other case it hands one text to the error stream: the stack of the error, or its string
  form when it has no stack, with two spaces in front of every line, between two newlines.
\<close>

theorem onerror_logging:
  assumes "isNativeError err"
    and "msg = (case err_stack err of
                  None \<Rightarrow> err_toString err
                | Some s \<Rightarrow> if s = [] then err_toString err else s)"
  shows "onerror this err =
           Inr (if err_status err = JNum 404 \<or> truthy (err_expose err) \<or> truthy (app_silent this)
                then []
                else [[CHR 0x0A] @ concat (map ((@) ''  '') (lines_of msg)) @ [CHR 0x0A]])
       \<and> (onerror this err = Inr [] \<longleftrightarrow>
            err_status err = JNum 404 \<or> truthy (err_expose err) \<or> truthy (app_silent this))"
  using assms
  by (simp add: onerror_def diagnostic_def replace_line_starts_lines)

theorem onerror_logging_witness:
  "onerror loud_app sample_error =
     Inr [[CHR 0x0A] @ ''  Error: boom'' @ [CHR 0x0A] @ ''      at handler'' @ [CHR 0x0A]]
   \<and> onerror loud_app sample_error \<noteq> Inr []"
proof -
  have h1: "isNativeError sample_error"
    by (simp add: sample_error_def isNativeError_def)
  have h2: "''Error: boom'' @ [CHR 0x0A] @ ''    at handler'' =
      (case err_stack sample_error of
         None \<Rightarrow> err_toString sample_error
       | Some s \<Rightarrow> if s = [] then err_toString sample_error else s)"
    by (simp add: sample_error_def)
  have l: "lines_of (''Error: boom'' @ [CHR 0x0A] @ ''    at handler'') =
      [''Error: boom'' @ [CHR 0x0A], ''    at handler'']"
    by code_simp
  have n: "\<not> (err_status sample_error = JNum 404 \<or> truthy (err_expose sample_error)
      \<or> truthy (app_silent loud_app))"
    by (simp add: sample_error_def loud_app_def)
  show ?thesis
    using onerror_logging [OF h1 h2, of loud_app] n l by simp
qed




section \<open>The context factory: the links of a new context\<close>

text \<open>Reading through an object looks at no address above it.\<close>

lemma lookup_below:
  "a < length h \<Longrightarrow> a < length h' \<Longrightarrow> \<forall>i\<le>a. h' ! i = h ! i \<Longrightarrow> lookup h' a k = lookup h a k"
proof (induction a rule: less_induct)
  case (less a)
  have same: "h' ! a = h ! a"
    using less.prems by simp
  have rec: "lookup h' p k = lookup h p k" if "p < a" for p
    using less.IH [OF that] less.prems that by simp
  show ?case
    using less.prems same rec
    by (subst lookup.simps [of h'], subst lookup.simps [of h])
      (auto split: option.splits proto.splits)
qed

lemma lookup_append [simp]: "a < length h \<Longrightarrow> lookup (h @ xs) a k = lookup h a k"
  by (rule lookup_below) (simp_all add: nth_append)

lemma length_put [simp]: "length (put h a k v) = length h"
  by (simp add: put_def)

lemma nth_put:
  "put h a k v ! b =
     (if b = a \<and> a < length h then (h ! a)\<lparr>obj_props := (obj_props (h ! a))(k \<mapsto> v)\<rparr> else h ! b)"
  by (simp add: put_def)

lemma lookup_put [simp]: "a < b \<Longrightarrow> lookup (put h b k v) a x = lookup h a x"
proof (cases "a < length h")
  case True
  assume "a < b"
  then show ?thesis
    using True by (intro lookup_below) (simp_all add: nth_put)
next
  case False
  then show ?thesis
    by (subst lookup.simps [of "put h b k v"], subst lookup.simps [of h]) simp
qed

lemma take_put [simp]: "n \<le> a \<Longrightarrow> take n (put h a k v) = take n h"
  by (simp add: put_def)

text \<open>
  Claim C9. For an application whose three templates are objects, and a transport request
  that is an object, \<^verbatim>\<open>createContext\<close> returns a new context: four objects are added to the
  store and no existing object changes. The context refers to the request facade, the
  response facade, the application, both transport handles and a state object with no
  property; each facade refers to the context, to the other facade, to the application and
  to both transport handles; and the context and the request facade hold as original URL
  the \<^verbatim>\<open>url\<close> that the transport request had when the call was made.
\<close>

theorem createContext_links:
  assumes "this < length h"
    and "lookup h this ''context'' = JRef pc"
    and "lookup h this ''request'' = JRef pr"
    and "lookup h this ''response'' = JRef ps"
    and "req = JRef rq" and "rq < length h"
    and "c = length h" and "r = length h + 1" and "s = length h + 2" and "st = length h + 3"
    and "url = lookup h rq ''url''"
  shows "\<exists>h'. createContext this req res h = Inr (c, h')
     \<and> length h' = length h + 4
     \<and> take (length h) h' = h
     \<and> h' ! c = \<lparr>obj_proto = Proto pc,
                  obj_props = [''request'' \<mapsto> JRef r, ''response'' \<mapsto> JRef s,
                               ''app'' \<mapsto> JRef this, ''req'' \<mapsto> req, ''res'' \<mapsto> res,
                               ''originalUrl'' \<mapsto> url, ''state'' \<mapsto> JRef st]\<rparr>
     \<and> h' ! r = \<lparr>obj_proto = Proto pr,
                  obj_props = [''app'' \<mapsto> JRef this, ''req'' \<mapsto> req, ''res'' \<mapsto> res,
                               ''ctx'' \<mapsto> JRef c, ''response'' \<mapsto> JRef s,
                               ''originalUrl'' \<mapsto> url]\<rparr>
     \<and> h' ! s = \<lparr>obj_proto = Proto ps,
                  obj_props = [''app'' \<mapsto> JRef this, ''req'' \<mapsto> req, ''res'' \<mapsto> res,
                               ''ctx'' \<mapsto> JRef c, ''request'' \<mapsto> JRef r]\<rparr>
     \<and> h' ! st = \<lparr>obj_proto = Proto_Object, obj_props = Map.empty\<rparr>"
  using assms
  by (simp add: createContext_def Object_create_def empty_object_def get_def Let_def
      nth_put nth_append numeral_3_eq_3)

theorem createContext_links_witness:
  "\<exists>h'. createContext 0 (JRef 4) (JRef 5) sample_heap = Inr (6, h')
     \<and> length h' = 10
     \<and> take 6 h' = sample_heap
     \<and> h' ! 6 = \<lparr>obj_proto = Proto 1,
                  obj_props = [''request'' \<mapsto> JRef 7, ''response'' \<mapsto> JRef 8,
                               ''app'' \<mapsto> JRef 0, ''req'' \<mapsto> JRef 4, ''res'' \<mapsto> JRef 5,
                               ''originalUrl'' \<mapsto> JStr ''/users?id=1'', ''state'' \<mapsto> JRef 9]\<rparr>
     \<and> h' ! 7 = \<lparr>obj_proto = Proto 2,
                  obj_props = [''app'' \<mapsto> JRef 0, ''req'' \<mapsto> JRef 4, ''res'' \<mapsto> JRef 5,
                               ''ctx'' \<mapsto> JRef 6, ''response'' \<mapsto> JRef 8,
                               ''originalUrl'' \<mapsto> JStr ''/users?id=1'']\<rparr>
     \<and> h' ! 8 = \<lparr>obj_proto = Proto 3,
                  obj_props = [''app'' \<mapsto> JRef 0, ''req'' \<mapsto> JRef 4, ''res'' \<mapsto> JRef 5,
                               ''ctx'' \<mapsto> JRef 6, ''request'' \<mapsto> JRef 7]\<rparr>
     \<and> h' ! 9 = \<lparr>obj_proto = Proto_Object, obj_props = Map.empty\<rparr>"
proof -
  have n: "length sample_heap = 6"
    by (simp add: sample_heap_def)
  have h1: "0 < length sample_heap"
    by (simp add: n)
  have h2: "lookup sample_heap 0 ''context'' = JRef 1"
    by (simp add: lookup.simps [of sample_heap 0] n) (simp add: sample_heap_def)
  have h3: "lookup sample_heap 0 ''request'' = JRef 2"
    by (simp add: lookup.simps [of sample_heap 0] n) (simp add: sample_heap_def)
  have h4: "lookup sample_heap 0 ''response'' = JRef 3"
    by (simp add: lookup.simps [of sample_heap 0] n) (simp add: sample_heap_def)
  have h6: "4 < length sample_heap"
    by (simp add: n)
  have h11: "JStr ''/users?id=1'' = lookup sample_heap 4 ''url''"
    by (simp add: lookup.simps [of sample_heap 4] n) (simp add: sample_heap_def)
  show ?thesis
    using createContext_links [OF h1 h2 h3 h4 refl h6 refl refl refl refl h11, of "JRef 5"]
    by (simp add: n)
qed

end
